theory Spec2Isabelle
  imports Main
begin

section \<open>Go error values\<close>

text \<open>
  A Go \<^verbatim>\<open>error\<close> is an interface value. The coordinators only ever read an error's text
  (\<^verbatim>\<open>%v\<close>, i.e. its \<^verbatim>\<open>Error()\<close> method) and wrap it (\<^verbatim>\<open>%w\<close>). An error is therefore
  either \<open>Opaque msg\<close>, a value with the text \<open>msg\<close> and no \<^verbatim>\<open>Unwrap\<close> method (a sentinel
  such as \<^verbatim>\<open>sql.ErrTxDone\<close>, a driver error), or \<open>WrapError msg err\<close>, the
  \<^verbatim>\<open>*fmt.wrapError{msg, err}\<close> that \<^verbatim>\<open>fmt.Errorf\<close> builds for a format with one \<^verbatim>\<open>%w\<close>.
  A nil error is \<open>None\<close> of \<open>error option\<close>. Equality of two \<open>error\<close> values stands for Go's
  \<^verbatim>\<open>==\<close> on them.
\<close>

datatype error = Opaque string | WrapError string error

fun Error :: "error \<Rightarrow> string" where
  "Error (Opaque msg) = msg"
| "Error (WrapError msg err) = msg"

fun Unwrap :: "error \<Rightarrow> error option" where
  "Unwrap (Opaque msg) = None"
| "Unwrap (WrapError msg err) = Some err"

text \<open>The chain that \<^verbatim>\<open>errors.Is\<close> and \<^verbatim>\<open>errors.As\<close> walk: the error, then what it unwraps to.\<close>

fun chain :: "error \<Rightarrow> error list" where
  "chain (Opaque msg) = [Opaque msg]"
| "chain (WrapError msg err) = WrapError msg err # chain err"

definition errors_Is :: "error \<Rightarrow> error \<Rightarrow> bool" where
  "errors_Is err target = (target \<in> set (chain err))"

text \<open>\<^verbatim>\<open>fmt.Errorf(prefix + "%w", err)\<close>, the shape of the begin and commit failures.\<close>

definition Errorf_w :: "string \<Rightarrow> error \<Rightarrow> error" where
  "Errorf_w prefix err = WrapError (prefix @ Error err) err"

text \<open>\<^verbatim>\<open>fmt.Errorf("rollback failed: %v (original error: %w)", rbErr, err)\<close>.\<close>

definition Errorf_rollback :: "error \<Rightarrow> error \<Rightarrow> error" where
  "Errorf_rollback rbErr err =
     WrapError (''rollback failed: '' @ Error rbErr @ '' (original error: '' @ Error err @ '')'') err"

section \<open>Outcomes of a Go call\<close>

text \<open>
  A call of a function of result type \<^verbatim>\<open>error\<close> either returns (nil or an error) or
  panics with a value. The module is built with Go 1.24 (\<^verbatim>\<open>go.mod\<close>), where \<^verbatim>\<open>panic(nil)\<close>
  reaches \<^verbatim>\<open>recover\<close> as a non-nil \<^verbatim>\<open>*runtime.PanicNilError\<close>: every \<open>Panic p\<close> is seen by
  \<^verbatim>\<open>recover() != nil\<close>. A callback that never returns, or that ends its goroutine with
  \<^verbatim>\<open>runtime.Goexit\<close>, has neither outcome and is not modelled.
\<close>

datatype 'p outcome = Return "error option" | Panic 'p

section \<open>The stores\<close>

text \<open>
  The connection sources are external collaborators. Each operation is a function of the
  store's state \<open>'s\<close> that answers and returns the new state; begin answers a handle or an
  error, commit and rollback answer nil or an error, and all three return (they do not
  panic). The callback works on the same state. \<open>'c\<close> is the context, \<open>'tx\<close> the
  transaction handle.
  \<open>pgxpool\<close> is \<^verbatim>\<open>*pgxpool.Pool\<close> with the \<^verbatim>\<open>pgx.Tx\<close> it hands out (commit and rollback
  take the context); \<open>sqldb\<close> is \<^verbatim>\<open>*sql.DB\<close> with its \<^verbatim>\<open>*sql.Tx\<close> (they do not).
\<close>

record ('c, 'tx, 's) pgxpool =
  pool_Begin :: "'c \<Rightarrow> 's \<Rightarrow> (error + 'tx) \<times> 's"
  tx_Commit :: "'tx \<Rightarrow> 'c \<Rightarrow> 's \<Rightarrow> error option \<times> 's"
  tx_Rollback :: "'tx \<Rightarrow> 'c \<Rightarrow> 's \<Rightarrow> error option \<times> 's"

record ('c, 'tx, 's) sqldb =
  db_BeginTx :: "'c \<Rightarrow> 's \<Rightarrow> (error + 'tx) \<times> 's"
  sqltx_Commit :: "'tx \<Rightarrow> 's \<Rightarrow> error option \<times> 's"
  sqltx_Rollback :: "'tx \<Rightarrow> 's \<Rightarrow> error option \<times> 's"

section \<open>WithTransaction\<close>

text \<open>
  The body of \<^verbatim>\<open>WithTransaction\<close> after a successful \<^verbatim>\<open>pool.Begin\<close>: what happens
  between the \<^verbatim>\<open>defer\<close> statement and the function's exit.
\<close>

definition WithTransaction_body ::
  "'c \<Rightarrow> ('c, 'tx, 's) pgxpool \<Rightarrow> ('tx \<Rightarrow> 's \<Rightarrow> 'p outcome \<times> 's) \<Rightarrow> 'tx \<Rightarrow> 's \<Rightarrow> 'p outcome \<times> 's" where
  "WithTransaction_body ctx pool fn tx s =
     (case fn tx s of
        (Panic p, s1) \<Rightarrow> (Panic p, s1)
      | (Return (Some err), s1) \<Rightarrow>
          (case tx_Rollback pool tx ctx s1 of
             (Some rbErr, s2) \<Rightarrow> (Return (Some (Errorf_rollback rbErr err)), s2)
           | (None, s2) \<Rightarrow> (Return (Some err), s2))
      | (Return None, s1) \<Rightarrow>
          (case tx_Commit pool tx ctx s1 of
             (Some err, s2) \<Rightarrow> (Return (Some (Errorf_w ''failed to commit transaction: '' err)), s2)
           | (None, s2) \<Rightarrow> (Return None, s2)))"

text \<open>
  The deferred closure runs at every exit of the body. \<^verbatim>\<open>recover()\<close> is nil after a
  return, and the closure does nothing; after a panic it is the panic value \<open>p\<close>: the
  closure rolls back, drops the rollback's result and panics with \<open>p\<close> again.
\<close>

definition WithTransaction_deferred ::
  "'c \<Rightarrow> ('c, 'tx, 's) pgxpool \<Rightarrow> 'tx \<Rightarrow> 'p outcome \<times> 's \<Rightarrow> 'p outcome \<times> 's" where
  "WithTransaction_deferred ctx pool tx r =
     (case r of
        (Panic p, s) \<Rightarrow> (case tx_Rollback pool tx ctx s of (_, s') \<Rightarrow> (Panic p, s'))
      | (Return e, s) \<Rightarrow> (Return e, s))"

definition WithTransaction ::
  "'c \<Rightarrow> ('c, 'tx, 's) pgxpool \<Rightarrow> ('tx \<Rightarrow> 's \<Rightarrow> 'p outcome \<times> 's) \<Rightarrow> 's \<Rightarrow> 'p outcome \<times> 's" where
  "WithTransaction ctx pool fn s =
     (case pool_Begin pool ctx s of
        (Inl err, s0) \<Rightarrow> (Return (Some (Errorf_w ''failed to begin transaction: '' err)), s0)
      | (Inr tx, s0) \<Rightarrow> WithTransaction_deferred ctx pool tx (WithTransaction_body ctx pool fn tx s0))"

section \<open>SQLiteTransaction\<close>

text \<open>
  The same three parts for \<^verbatim>\<open>SQLiteTransaction\<close>: \<^verbatim>\<open>db.BeginTx(ctx, nil)\<close>, then
  \<^verbatim>\<open>tx.Rollback()\<close> and \<^verbatim>\<open>tx.Commit()\<close> without a context.
\<close>

definition SQLiteTransaction_body ::
  "('c, 'tx, 's) sqldb \<Rightarrow> ('tx \<Rightarrow> 's \<Rightarrow> 'p outcome \<times> 's) \<Rightarrow> 'tx \<Rightarrow> 's \<Rightarrow> 'p outcome \<times> 's" where
  "SQLiteTransaction_body db fn tx s =
     (case fn tx s of
        (Panic p, s1) \<Rightarrow> (Panic p, s1)
      | (Return (Some err), s1) \<Rightarrow>
          (case sqltx_Rollback db tx s1 of
             (Some rbErr, s2) \<Rightarrow> (Return (Some (Errorf_rollback rbErr err)), s2)
           | (None, s2) \<Rightarrow> (Return (Some err), s2))
      | (Return None, s1) \<Rightarrow>
          (case sqltx_Commit db tx s1 of
             (Some err, s2) \<Rightarrow> (Return (Some (Errorf_w ''failed to commit transaction: '' err)), s2)
           | (None, s2) \<Rightarrow> (Return None, s2)))"

definition SQLiteTransaction_deferred ::
  "('c, 'tx, 's) sqldb \<Rightarrow> 'tx \<Rightarrow> 'p outcome \<times> 's \<Rightarrow> 'p outcome \<times> 's" where
  "SQLiteTransaction_deferred db tx r =
     (case r of
        (Panic p, s) \<Rightarrow> (case sqltx_Rollback db tx s of (_, s') \<Rightarrow> (Panic p, s'))
      | (Return e, s) \<Rightarrow> (Return e, s))"

definition SQLiteTransaction ::
  "'c \<Rightarrow> ('c, 'tx, 's) sqldb \<Rightarrow> ('tx \<Rightarrow> 's \<Rightarrow> 'p outcome \<times> 's) \<Rightarrow> 's \<Rightarrow> 'p outcome \<times> 's" where
  "SQLiteTransaction ctx db fn s =
     (case db_BeginTx db ctx s of
        (Inl err, s0) \<Rightarrow> (Return (Some (Errorf_w ''failed to begin transaction: '' err)), s0)
      | (Inr tx, s0) \<Rightarrow> SQLiteTransaction_deferred db tx (SQLiteTransaction_body db fn tx s0))"

section \<open>One store seen as the other\<close>

text \<open>
  The two stores differ only in where the context goes. A \<^verbatim>\<open>*sql.DB\<close> is seen as a pool
  whose commit and rollback ignore their context; a pool under a fixed context is seen
  as a \<^verbatim>\<open>*sql.DB\<close>.
\<close>

definition pool_of_db :: "('c, 'tx, 's) sqldb \<Rightarrow> ('c, 'tx, 's) pgxpool" where
  "pool_of_db db =
     \<lparr>pool_Begin = db_BeginTx db,
      tx_Commit = (\<lambda>tx ctx. sqltx_Commit db tx),
      tx_Rollback = (\<lambda>tx ctx. sqltx_Rollback db tx)\<rparr>"

definition db_of_pool :: "'c \<Rightarrow> ('c, 'tx, 's) pgxpool \<Rightarrow> ('c, 'tx, 's) sqldb" where
  "db_of_pool ctx pool =
     \<lparr>db_BeginTx = pool_Begin pool,
      sqltx_Commit = (\<lambda>tx. tx_Commit pool tx ctx),
      sqltx_Rollback = (\<lambda>tx. tx_Rollback pool tx ctx)\<rparr>"

section \<open>Recording the calls a coordinator makes\<close>

text \<open>
  To count the calls made on the collaborators, a store and a callback are wrapped so
  that each call also appends its event to a log carried beside the store's state, the
  way a test double counts calls. The wrapped operation answers exactly as the original.
\<close>

datatype event = EvBegin | EvCallback | EvCommit | EvRollback | EvGet | EvCompute | EvSet

definition recording :: "event \<Rightarrow> ('s \<Rightarrow> 'r \<times> 's) \<Rightarrow> 's \<times> event list \<Rightarrow> 'r \<times> ('s \<times> event list)" where
  "recording ev f = (\<lambda>(s, log). case f s of (r, s') \<Rightarrow> (r, (s', log @ [ev])))"

definition recording_pool :: "('c, 'tx, 's) pgxpool \<Rightarrow> ('c, 'tx, 's \<times> event list) pgxpool" where
  "recording_pool pool =
     \<lparr>pool_Begin = (\<lambda>ctx. recording EvBegin (pool_Begin pool ctx)),
      tx_Commit = (\<lambda>tx ctx. recording EvCommit (tx_Commit pool tx ctx)),
      tx_Rollback = (\<lambda>tx ctx. recording EvRollback (tx_Rollback pool tx ctx))\<rparr>"

definition recording_db :: "('c, 'tx, 's) sqldb \<Rightarrow> ('c, 'tx, 's \<times> event list) sqldb" where
  "recording_db db =
     \<lparr>db_BeginTx = (\<lambda>ctx. recording EvBegin (db_BeginTx db ctx)),
      sqltx_Commit = (\<lambda>tx. recording EvCommit (sqltx_Commit db tx)),
      sqltx_Rollback = (\<lambda>tx. recording EvRollback (sqltx_Rollback db tx))\<rparr>"

definition recording_fn ::
  "('tx \<Rightarrow> 's \<Rightarrow> 'p outcome \<times> 's) \<Rightarrow> 'tx \<Rightarrow> 's \<times> event list \<Rightarrow> 'p outcome \<times> ('s \<times> event list)" where
  "recording_fn fn = (\<lambda>tx. recording EvCallback (fn tx))"

text \<open>The log of a recorded run started with an empty log.\<close>

definition pool_calls ::
  "'c \<Rightarrow> ('c, 'tx, 's) pgxpool \<Rightarrow> ('tx \<Rightarrow> 's \<Rightarrow> 'p outcome \<times> 's) \<Rightarrow> 's \<Rightarrow> event list" where
  "pool_calls ctx pool fn s =
     snd (snd (WithTransaction ctx (recording_pool pool) (recording_fn fn) (s, [])))"

definition db_calls ::
  "'c \<Rightarrow> ('c, 'tx, 's) sqldb \<Rightarrow> ('tx \<Rightarrow> 's \<Rightarrow> 'p outcome \<times> 's) \<Rightarrow> 's \<Rightarrow> event list" where
  "db_calls ctx db fn s =
     snd (snd (SQLiteTransaction ctx (recording_db db) (recording_fn fn) (s, [])))"

section \<open>A small store for concrete runs\<close>

text \<open>
  An in-memory table of rows with one transaction at a time: \<open>pending\<close> holds the rows
  as the open transaction sees them. Begin fails on a cancelled context; commit and
  rollback fail with the error planted in \<open>commit_err\<close> and \<open>rollback_err\<close>.
\<close>

datatype go_context = Background | Cancelled

record table =
  rows :: "string list"
  pending :: "string list option"
  commit_err :: "error option"
  rollback_err :: "error option"

definition context_Canceled :: error where
  "context_Canceled = Opaque ''context canceled''"

definition ErrTxDone :: error where
  "ErrTxDone = Opaque ''sql: transaction has already been committed or rolled back''"

definition table_begin :: "go_context \<Rightarrow> table \<Rightarrow> (error + nat) \<times> table" where
  "table_begin ctx t =
     (case ctx of
        Cancelled \<Rightarrow> (Inl context_Canceled, t)
      | Background \<Rightarrow> (Inr 1, t\<lparr>pending := Some (rows t)\<rparr>))"

definition table_commit :: "nat \<Rightarrow> table \<Rightarrow> error option \<times> table" where
  "table_commit tx t =
     (case commit_err t of
        Some e \<Rightarrow> (Some e, t)
      | None \<Rightarrow> (None, t\<lparr>rows := (case pending t of Some r \<Rightarrow> r | None \<Rightarrow> rows t), pending := None\<rparr>))"

definition table_rollback :: "nat \<Rightarrow> table \<Rightarrow> error option \<times> table" where
  "table_rollback tx t =
     (case rollback_err t of
        Some e \<Rightarrow> (Some e, t)
      | None \<Rightarrow> (None, t\<lparr>pending := None\<rparr>))"

definition table_pool :: "(go_context, nat, table) pgxpool" where
  "table_pool =
     \<lparr>pool_Begin = table_begin,
      tx_Commit = (\<lambda>tx ctx. table_commit tx),
      tx_Rollback = (\<lambda>tx ctx. table_rollback tx)\<rparr>"

definition table_db :: "(go_context, nat, table) sqldb" where
  "table_db =
     \<lparr>db_BeginTx = table_begin, sqltx_Commit = table_commit, sqltx_Rollback = table_rollback\<rparr>"

definition table0 :: table where
  "table0 = \<lparr>rows = [''alice''], pending = None, commit_err = None, rollback_err = None\<rparr>"

text \<open>The same table with a rollback, or a commit, that fails.\<close>

definition table_rb :: table where
  "table_rb = table0\<lparr>rollback_err := Some ErrTxDone\<rparr>"

definition table_cm :: table where
  "table_cm = table0\<lparr>commit_err := Some (Opaque ''database is locked'')\<rparr>"

text \<open>A table after begin, and after the callback's insert.\<close>

definition table_open :: "table \<Rightarrow> table" where
  "table_open t = t\<lparr>pending := Some [''alice'']\<rparr>"

definition table_written :: "table \<Rightarrow> table" where
  "table_written t = t\<lparr>pending := Some [''alice'', ''bob'']\<rparr>"

definition insert_failed :: error where
  "insert_failed = Opaque ''UNIQUE constraint failed: users.name''"

text \<open>Callbacks that insert a row and then return nil, return an error, or panic.\<close>

definition insert_row :: "string \<Rightarrow> table \<Rightarrow> table" where
  "insert_row r t = t\<lparr>pending := map_option (\<lambda>rs. rs @ [r]) (pending t)\<rparr>"

definition insert_ok :: "nat \<Rightarrow> table \<Rightarrow> string outcome \<times> table" where
  "insert_ok tx t = (Return None, insert_row ''bob'' t)"

definition insert_fail :: "error \<Rightarrow> nat \<Rightarrow> table \<Rightarrow> string outcome \<times> table" where
  "insert_fail e tx t = (Return (Some e), insert_row ''bob'' t)"

definition insert_panic :: "nat \<Rightarrow> table \<Rightarrow> string outcome \<times> table" where
  "insert_panic tx t = (Panic ''boom'', insert_row ''bob'' t)"

section \<open>The cache populators\<close>

text \<open>
  Modelled from the spec: the cache collaborator of section 6 (the file \<^verbatim>\<open>cache.go\<close> with
  the \<^verbatim>\<open>Cache\<close> type is not among the sources). It reads a key under a context, answering
  the stored string or an error, and writes a key with a time-to-live, answering nil or
  an error.
\<close>

record ('c, 's) cache =
  cache_Get :: "'c \<Rightarrow> string \<Rightarrow> 's \<Rightarrow> (error + string) \<times> 's"
  cache_Set :: "'c \<Rightarrow> string \<Rightarrow> string \<Rightarrow> nat \<Rightarrow> 's \<Rightarrow> error option \<times> 's"

text \<open>
  Modelled from the spec: the distinguished not-found signal of a read (\<^verbatim>\<open>redis.Nil\<close> in
  the component's documentation), told apart from every other error.
\<close>

definition redis_Nil :: error where
  "redis_Nil = Opaque ''redis: nil''"

definition IsNil :: "error \<Rightarrow> bool" where
  "IsNil err = (err = redis_Nil)"

text \<open>
  Modelled from the spec: what a compute callback returns, a value of any serializable
  shape; the populator tells a string from everything else.
\<close>

datatype 'v go_value = String string | Other 'v

text \<open>
  Modelled from the spec: the serialization collaborator of section 6, a structured
  encode and decode pair. Decoding writes into the destination and answers nil or an
  error.
\<close>

record ('v, 'd) codec =
  Marshal :: "'v go_value \<Rightarrow> error + string"
  Unmarshal :: "string \<Rightarrow> 'd \<Rightarrow> error option \<times> 'd"

text \<open>
  Modelled from the spec: \<^verbatim>\<open>Remember\<close>, the string-returning populator of section 4.2
  (its source, \<^verbatim>\<open>cache.go\<close>, is missing). A hit returns the stored string. A read that fails
  with anything but the not-found signal surfaces that error. On a miss the callback
  runs once; its failure is returned; its result is stored verbatim when it is a string
  and serialized first otherwise, a serialization failure aborting before the write;
  a write failure is surfaced; otherwise the stored string is returned.
\<close>

definition Remember ::
  "('c, 's) cache \<Rightarrow> ('v, 'd) codec \<Rightarrow> 'c \<Rightarrow> string \<Rightarrow> nat \<Rightarrow>
   ('s \<Rightarrow> (error + 'v go_value) \<times> 's) \<Rightarrow> 's \<Rightarrow> (error + string) \<times> 's" where
  "Remember c codec ctx key ttl fn s =
     (case cache_Get c ctx key s of
        (Inr val, s0) \<Rightarrow> (Inr val, s0)
      | (Inl err, s0) \<Rightarrow>
          if \<not> IsNil err then (Inl err, s0)
          else
            (case fn s0 of
               (Inl ferr, s1) \<Rightarrow> (Inl ferr, s1)
             | (Inr result, s1) \<Rightarrow>
                 (case (case result of String str \<Rightarrow> Inr str | Other v \<Rightarrow> Marshal codec result) of
                    Inl merr \<Rightarrow> (Inl merr, s1)
                  | Inr payload \<Rightarrow>
                      (case cache_Set c ctx key payload ttl s1 of
                         (Some serr, s2) \<Rightarrow> (Inl serr, s2)
                       | (None, s2) \<Rightarrow> (Inr payload, s2)))))"

text \<open>
  Modelled from the spec: \<^verbatim>\<open>RememberJSON\<close>, the destination variant of section 4.2 (its
  source, \<^verbatim>\<open>cache.go\<close>, is missing). A hit deserializes the stored payload into the
  destination. On a miss the callback runs once; on its failure the destination keeps
  its prior state and nothing is written; on success the result is serialized, stored,
  and that same serialized form is deserialized into the destination. The call answers
  nil or an error, and the destination as it leaves it.
\<close>

definition RememberJSON ::
  "('c, 's) cache \<Rightarrow> ('v, 'd) codec \<Rightarrow> 'c \<Rightarrow> string \<Rightarrow> nat \<Rightarrow> 'd \<Rightarrow>
   ('s \<Rightarrow> (error + 'v go_value) \<times> 's) \<Rightarrow> 's \<Rightarrow> (error option \<times> 'd) \<times> 's" where
  "RememberJSON c codec ctx key ttl dest fn s =
     (case cache_Get c ctx key s of
        (Inr val, s0) \<Rightarrow> (Unmarshal codec val dest, s0)
      | (Inl err, s0) \<Rightarrow>
          if \<not> IsNil err then ((Some err, dest), s0)
          else
            (case fn s0 of
               (Inl ferr, s1) \<Rightarrow> ((Some ferr, dest), s1)
             | (Inr result, s1) \<Rightarrow>
                 (case Marshal codec result of
                    Inl merr \<Rightarrow> ((Some merr, dest), s1)
                  | Inr payload \<Rightarrow>
                      (case cache_Set c ctx key payload ttl s1 of
                         (Some serr, s2) \<Rightarrow> ((Some serr, dest), s2)
                       | (None, s2) \<Rightarrow> (Unmarshal codec payload dest, s2)))))"

text \<open>The recorded cache and callback, and the log of a recorded run.\<close>

definition recording_cache :: "('c, 's) cache \<Rightarrow> ('c, 's \<times> event list) cache" where
  "recording_cache c =
     \<lparr>cache_Get = (\<lambda>ctx key. recording EvGet (cache_Get c ctx key)),
      cache_Set = (\<lambda>ctx key val ttl. recording EvSet (cache_Set c ctx key val ttl))\<rparr>"

definition Remember_calls ::
  "('c, 's) cache \<Rightarrow> ('v, 'd) codec \<Rightarrow> 'c \<Rightarrow> string \<Rightarrow> nat \<Rightarrow>
   ('s \<Rightarrow> (error + 'v go_value) \<times> 's) \<Rightarrow> 's \<Rightarrow> event list" where
  "Remember_calls c codec ctx key ttl fn s =
     snd (snd (Remember (recording_cache c) codec ctx key ttl (recording EvCompute fn) (s, [])))"

definition RememberJSON_calls ::
  "('c, 's) cache \<Rightarrow> ('v, 'd) codec \<Rightarrow> 'c \<Rightarrow> string \<Rightarrow> nat \<Rightarrow> 'd \<Rightarrow>
   ('s \<Rightarrow> (error + 'v go_value) \<times> 's) \<Rightarrow> 's \<Rightarrow> event list" where
  "RememberJSON_calls c codec ctx key ttl dest fn s =
     snd (snd (RememberJSON (recording_cache c) codec ctx key ttl dest (recording EvCompute fn) (s, [])))"

subsection \<open>A small cache and codec for concrete runs\<close>

text \<open>
  The cache is a list of key, value and time-to-live, newest first; a read on a
  cancelled context fails. The codec encodes a flag as \<^verbatim>\<open>true\<close> or \<^verbatim>\<open>false\<close> and a
  string between quotes (escaping left out), refuses a channel as \<^verbatim>\<open>json.Marshal\<close>
  does, and decodes into a boolean destination.
\<close>

type_synonym kv = "(string \<times> string \<times> nat) list"

definition kv_get :: "go_context \<Rightarrow> string \<Rightarrow> kv \<Rightarrow> (error + string) \<times> kv" where
  "kv_get ctx key m =
     (case ctx of
        Cancelled \<Rightarrow> (Inl context_Canceled, m)
      | Background \<Rightarrow>
          (case map_of m key of None \<Rightarrow> (Inl redis_Nil, m) | Some (val, ttl) \<Rightarrow> (Inr val, m)))"

definition kv_set :: "go_context \<Rightarrow> string \<Rightarrow> string \<Rightarrow> nat \<Rightarrow> kv \<Rightarrow> error option \<times> kv" where
  "kv_set ctx key val ttl m =
     (case ctx of
        Cancelled \<Rightarrow> (Some context_Canceled, m)
      | Background \<Rightarrow> (None, (key, val, ttl) # m))"

definition kv_cache :: "(go_context, kv) cache" where
  "kv_cache = \<lparr>cache_Get = kv_get, cache_Set = kv_set\<rparr>"

datatype payload = Flag bool | Chan

definition flag_Marshal :: "payload go_value \<Rightarrow> error + string" where
  "flag_Marshal v =
     (case v of
        String str \<Rightarrow> Inr ([CHR 0x22] @ str @ [CHR 0x22])
      | Other (Flag b) \<Rightarrow> Inr (if b then ''true'' else ''false'')
      | Other Chan \<Rightarrow> Inl (Opaque ''json: unsupported type: chan int''))"

definition flag_Unmarshal :: "string \<Rightarrow> bool \<Rightarrow> error option \<times> bool" where
  "flag_Unmarshal data dest =
     (if data = ''true'' then (None, True)
      else if data = ''false'' then (None, False)
      else (Some (Opaque ''json: cannot unmarshal into Go value of type bool''), dest))"

definition flag_codec :: "(payload, bool) codec" where
  "flag_codec = \<lparr>Marshal = flag_Marshal, Unmarshal = flag_Unmarshal\<rparr>"

text \<open>Compute callbacks: one that returns a value, one that fails.\<close>

definition compute_value :: "payload go_value \<Rightarrow> kv \<Rightarrow> (error + payload go_value) \<times> kv" where
  "compute_value v m = (Inr v, m)"

definition compute_fail :: "error \<Rightarrow> kv \<Rightarrow> (error + payload go_value) \<times> kv" where
  "compute_fail e m = (Inl e, m)"

definition compute_failed :: error where
  "compute_failed = Opaque ''computation failed''"

text \<open>A cache holding an unrelated key, and one holding the key \<^verbatim>\<open>k1\<close>.\<close>

definition kv1 :: kv where
  "kv1 = [(''other'', ''v0'', 10)]"

definition kv2 :: kv where
  "kv2 = [(''k1'', ''true'', 10)]"

section \<open>Facts about errors\<close>

lemma chain_self: "err \<in> set (chain err)"
  by (cases err) simp_all

lemma errors_Is_refl: "errors_Is err err"
  by (simp add: errors_Is_def chain_self)

lemma Unwrap_Errorf_w: "Unwrap (Errorf_w prefix err) = Some err"
  by (simp add: Errorf_w_def)

lemma Error_Errorf_w: "Error (Errorf_w prefix err) = prefix @ Error err"
  by (simp add: Errorf_w_def)

lemma errors_Is_Errorf_w: "errors_Is (Errorf_w prefix err) err"
  by (simp add: Errorf_w_def errors_Is_def chain_self)

lemma Unwrap_Errorf_rollback: "Unwrap (Errorf_rollback rbErr err) = Some err"
  by (simp add: Errorf_rollback_def)

lemma Error_Errorf_rollback:
  "Error (Errorf_rollback rbErr err)
     = ''rollback failed: '' @ Error rbErr @ '' (original error: '' @ Error err @ '')''"
  by (simp add: Errorf_rollback_def)

lemma chain_Errorf_rollback: "chain (Errorf_rollback rbErr err) = Errorf_rollback rbErr err # chain err"
  by (simp add: Errorf_rollback_def)

lemma errors_Is_Errorf_rollback:
  "errors_Is (Errorf_rollback rbErr err) target \<longleftrightarrow> target = Errorf_rollback rbErr err \<or> errors_Is err target"
  by (auto simp add: errors_Is_def chain_Errorf_rollback)

lemma Errorf_rollback_neq: "Errorf_rollback rbErr err \<noteq> rbErr"
proof
  assume "Errorf_rollback rbErr err = rbErr"
  then have "Error (Errorf_rollback rbErr err) = Error rbErr" by simp
  then have "length (Error (Errorf_rollback rbErr err)) = length (Error rbErr)" by simp
  then show False by (simp add: Errorf_rollback_def)
qed

lemma Errorf_rollback_neq_original: "Errorf_rollback rbErr err \<noteq> err"
proof
  assume "Errorf_rollback rbErr err = err"
  then have "length (Error (Errorf_rollback rbErr err)) = length (Error err)" by simp
  then show False by (simp add: Errorf_rollback_def)
qed

section \<open>The exits of the two coordinators\<close>

text \<open>What each coordinator returns, and the state it leaves, on each of its exits.\<close>

lemmas WithTransaction_defs = WithTransaction_def WithTransaction_body_def WithTransaction_deferred_def

lemmas SQLiteTransaction_defs = SQLiteTransaction_def SQLiteTransaction_body_def SQLiteTransaction_deferred_def

lemma WithTransaction_begin_failed:
  assumes "pool_Begin pool ctx s = (Inl berr, s0)"
  shows "WithTransaction ctx pool fn s = (Return (Some (Errorf_w ''failed to begin transaction: '' berr)), s0)"
  using assms by (simp add: WithTransaction_def)

lemma WithTransaction_panicked:
  assumes "pool_Begin pool ctx s = (Inr tx, s0)" and "fn tx s0 = (Panic p, s1)"
  shows "WithTransaction ctx pool fn s = (Panic p, snd (tx_Rollback pool tx ctx s1))"
  using assms by (simp add: WithTransaction_defs split: prod.splits)

lemma WithTransaction_failed:
  assumes "pool_Begin pool ctx s = (Inr tx, s0)" and "fn tx s0 = (Return (Some err), s1)"
  shows "WithTransaction ctx pool fn s =
    (Return (Some (case fst (tx_Rollback pool tx ctx s1) of None \<Rightarrow> err | Some rbErr \<Rightarrow> Errorf_rollback rbErr err)),
     snd (tx_Rollback pool tx ctx s1))"
  using assms by (simp add: WithTransaction_defs split: prod.splits option.splits)

lemma WithTransaction_rollback_failed:
  assumes "pool_Begin pool ctx s = (Inr tx, s0)" and "fn tx s0 = (Return (Some err), s1)"
    and "tx_Rollback pool tx ctx s1 = (Some rbErr, s2)"
  shows "WithTransaction ctx pool fn s = (Return (Some (Errorf_rollback rbErr err)), s2)"
  using assms by (simp add: WithTransaction_failed)

lemma WithTransaction_succeeded:
  assumes "pool_Begin pool ctx s = (Inr tx, s0)" and "fn tx s0 = (Return None, s1)"
  shows "WithTransaction ctx pool fn s =
    (Return (map_option (Errorf_w ''failed to commit transaction: '') (fst (tx_Commit pool tx ctx s1))),
     snd (tx_Commit pool tx ctx s1))"
  using assms by (simp add: WithTransaction_defs split: prod.splits option.splits)

lemma SQLiteTransaction_begin_failed:
  assumes "db_BeginTx db ctx s = (Inl berr, s0)"
  shows "SQLiteTransaction ctx db fn s = (Return (Some (Errorf_w ''failed to begin transaction: '' berr)), s0)"
  using assms by (simp add: SQLiteTransaction_def)

lemma SQLiteTransaction_panicked:
  assumes "db_BeginTx db ctx s = (Inr tx, s0)" and "fn tx s0 = (Panic p, s1)"
  shows "SQLiteTransaction ctx db fn s = (Panic p, snd (sqltx_Rollback db tx s1))"
  using assms by (simp add: SQLiteTransaction_defs split: prod.splits)

lemma SQLiteTransaction_failed:
  assumes "db_BeginTx db ctx s = (Inr tx, s0)" and "fn tx s0 = (Return (Some err), s1)"
  shows "SQLiteTransaction ctx db fn s =
    (Return (Some (case fst (sqltx_Rollback db tx s1) of None \<Rightarrow> err | Some rbErr \<Rightarrow> Errorf_rollback rbErr err)),
     snd (sqltx_Rollback db tx s1))"
  using assms by (simp add: SQLiteTransaction_defs split: prod.splits option.splits)

lemma SQLiteTransaction_rollback_failed:
  assumes "db_BeginTx db ctx s = (Inr tx, s0)" and "fn tx s0 = (Return (Some err), s1)"
    and "sqltx_Rollback db tx s1 = (Some rbErr, s2)"
  shows "SQLiteTransaction ctx db fn s = (Return (Some (Errorf_rollback rbErr err)), s2)"
  using assms by (simp add: SQLiteTransaction_failed)

lemma SQLiteTransaction_succeeded:
  assumes "db_BeginTx db ctx s = (Inr tx, s0)" and "fn tx s0 = (Return None, s1)"
  shows "SQLiteTransaction ctx db fn s =
    (Return (map_option (Errorf_w ''failed to commit transaction: '') (fst (sqltx_Commit db tx s1))),
     snd (sqltx_Commit db tx s1))"
  using assms by (simp add: SQLiteTransaction_defs split: prod.splits option.splits)

text \<open>
  The error returned after a failed rollback, spelled out: it unwraps to the callback's
  error, its text holds the text of both errors, and it is not the callback's error.
\<close>

lemma WithTransaction_wraps_and_returns:
  assumes "pool_Begin pool ctx s = (Inr tx, s0)" and "fn tx s0 = (Return (Some err), s1)"
    and "tx_Rollback pool tx ctx s1 = (Some rbErr, s2)"
  shows "\<exists>e. fst (WithTransaction ctx pool fn s) = Return (Some e) \<and> Unwrap e = Some err
           \<and> Error e = ''rollback failed: '' @ Error rbErr @ '' (original error: '' @ Error err @ '')''
           \<and> e \<noteq> err"
  using assms
  by (simp add: WithTransaction_rollback_failed Unwrap_Errorf_rollback Error_Errorf_rollback
      Errorf_rollback_neq_original)

lemma SQLiteTransaction_wraps_and_returns:
  assumes "db_BeginTx db ctx s = (Inr tx, s0)" and "fn tx s0 = (Return (Some err), s1)"
    and "sqltx_Rollback db tx s1 = (Some rbErr, s2)"
  shows "\<exists>e. fst (SQLiteTransaction ctx db fn s) = Return (Some e) \<and> Unwrap e = Some err
           \<and> Error e = ''rollback failed: '' @ Error rbErr @ '' (original error: '' @ Error err @ '')''
           \<and> e \<noteq> err"
  using assms
  by (simp add: SQLiteTransaction_rollback_failed Unwrap_Errorf_rollback Error_Errorf_rollback
      Errorf_rollback_neq_original)

section \<open>The calls of the two coordinators\<close>

text \<open>The log of a recorded run, by the answer of begin and the outcome of the callback.\<close>

lemma pool_calls_cases:
  "pool_calls ctx pool fn s =
    (case pool_Begin pool ctx s of
       (Inl berr, s0) \<Rightarrow> [EvBegin]
     | (Inr tx, s0) \<Rightarrow>
        (case fst (fn tx s0) of
           Return None \<Rightarrow> [EvBegin, EvCallback, EvCommit]
         | Return (Some err) \<Rightarrow> [EvBegin, EvCallback, EvRollback]
         | Panic p \<Rightarrow> [EvBegin, EvCallback, EvRollback]))"
  by (simp add: pool_calls_def WithTransaction_defs recording_pool_def recording_fn_def recording_def
      split: prod.splits sum.splits outcome.splits option.splits)

lemma db_calls_cases:
  "db_calls ctx db fn s =
    (case db_BeginTx db ctx s of
       (Inl berr, s0) \<Rightarrow> [EvBegin]
     | (Inr tx, s0) \<Rightarrow>
        (case fst (fn tx s0) of
           Return None \<Rightarrow> [EvBegin, EvCallback, EvCommit]
         | Return (Some err) \<Rightarrow> [EvBegin, EvCallback, EvRollback]
         | Panic p \<Rightarrow> [EvBegin, EvCallback, EvRollback]))"
  by (simp add: db_calls_def SQLiteTransaction_defs recording_db_def recording_fn_def recording_def
      split: prod.splits sum.splits outcome.splits option.splits)

text \<open>
  Recording changes nothing: a recorded run returns what the plain run returns, leaves
  the store as the plain run leaves it, and appends its calls to the log.
\<close>

lemma recorded_WithTransaction:
  "WithTransaction ctx (recording_pool pool) (recording_fn fn) (s, log) =
     (fst (WithTransaction ctx pool fn s),
      (snd (WithTransaction ctx pool fn s), log @ pool_calls ctx pool fn s))"
  by (auto simp add: pool_calls_def WithTransaction_defs recording_pool_def recording_fn_def recording_def
      split: prod.splits sum.splits outcome.splits option.splits)

lemma recorded_SQLiteTransaction:
  "SQLiteTransaction ctx (recording_db db) (recording_fn fn) (s, log) =
     (fst (SQLiteTransaction ctx db fn s),
      (snd (SQLiteTransaction ctx db fn s), log @ db_calls ctx db fn s))"
  by (auto simp add: db_calls_def SQLiteTransaction_defs recording_db_def recording_fn_def recording_def
      split: prod.splits sum.splits outcome.splits option.splits)

section \<open>The two coordinators compared\<close>

lemma pool_Begin_pool_of_db: "pool_Begin (pool_of_db db) = db_BeginTx db"
  by (simp add: pool_of_db_def)

lemma db_BeginTx_db_of_pool: "db_BeginTx (db_of_pool ctx pool) = pool_Begin pool"
  by (simp add: db_of_pool_def)

lemma body_pool_of_db:
  "WithTransaction_body ctx (pool_of_db db) fn tx s = SQLiteTransaction_body db fn tx s"
  by (simp add: SQLiteTransaction_body_def WithTransaction_body_def pool_of_db_def
      cong: prod.case_cong outcome.case_cong option.case_cong)

lemma deferred_pool_of_db:
  "WithTransaction_deferred ctx (pool_of_db db) tx r = SQLiteTransaction_deferred db tx r"
  by (simp add: SQLiteTransaction_deferred_def WithTransaction_deferred_def pool_of_db_def
      cong: prod.case_cong outcome.case_cong)

lemma SQLiteTransaction_as_WithTransaction:
  "SQLiteTransaction ctx db fn s = WithTransaction ctx (pool_of_db db) fn s"
proof (cases "db_BeginTx db ctx s")
  case (Pair r s0)
  then show ?thesis
    by (cases r)
       (simp_all add: SQLiteTransaction_def WithTransaction_def body_pool_of_db deferred_pool_of_db
          pool_Begin_pool_of_db)
qed

lemma body_db_of_pool:
  "SQLiteTransaction_body (db_of_pool ctx pool) fn tx s = WithTransaction_body ctx pool fn tx s"
  by (simp add: SQLiteTransaction_body_def WithTransaction_body_def db_of_pool_def
      cong: prod.case_cong outcome.case_cong option.case_cong)

lemma deferred_db_of_pool:
  "SQLiteTransaction_deferred (db_of_pool ctx pool) tx r = WithTransaction_deferred ctx pool tx r"
  by (simp add: SQLiteTransaction_deferred_def WithTransaction_deferred_def db_of_pool_def
      cong: prod.case_cong outcome.case_cong)

lemma WithTransaction_as_SQLiteTransaction:
  "WithTransaction ctx pool fn s = SQLiteTransaction ctx (db_of_pool ctx pool) fn s"
proof (cases "pool_Begin pool ctx s")
  case (Pair r s0)
  then show ?thesis
    by (cases r)
       (simp_all add: SQLiteTransaction_def WithTransaction_def body_db_of_pool deferred_db_of_pool
          db_BeginTx_db_of_pool)
qed

lemma pool_calls_pool_of_db: "pool_calls ctx (pool_of_db db) fn s = db_calls ctx db fn s"
  by (simp add: pool_calls_cases db_calls_cases pool_Begin_pool_of_db)

lemma db_calls_db_of_pool: "db_calls ctx (db_of_pool ctx pool) fn s = pool_calls ctx pool fn s"
  by (simp add: pool_calls_cases db_calls_cases db_BeginTx_db_of_pool)

section \<open>Runs of the small store\<close>

lemma table_pool_sel:
  "pool_Begin table_pool = table_begin"
  "tx_Commit table_pool tx ctx = table_commit tx"
  "tx_Rollback table_pool tx ctx = table_rollback tx"
  by (simp_all add: table_pool_def)

lemma table_db_sel:
  "db_BeginTx table_db = table_begin"
  "sqltx_Commit table_db = table_commit"
  "sqltx_Rollback table_db = table_rollback"
  by (simp_all add: table_db_def)

lemma table_begin_Background:
  "rows t = [''alice''] \<Longrightarrow> table_begin Background t = (Inr 1, table_open t)"
  by (simp add: table_begin_def table_open_def)

lemma insert_row_open: "insert_row ''bob'' (table_open t) = table_written t"
  by (simp add: insert_row_def table_open_def table_written_def)

lemma rows_tables: "rows table0 = [''alice'']" "rows table_rb = [''alice'']" "rows table_cm = [''alice'']"
  by (simp_all add: table0_def table_rb_def table_cm_def)

lemma table_rollback_written:
  "table_rollback tx (table_written table0) = (None, table0)"
  "table_rollback tx (table_written table_rb) = (Some ErrTxDone, table_written table_rb)"
  by (simp_all add: table_rollback_def table_written_def table0_def table_rb_def)

lemma table_commit_written:
  "table_commit tx (table_written table0) = (None, table0\<lparr>rows := [''alice'', ''bob'']\<rparr>)"
  "table_commit tx (table_written table_cm) = (Some (Opaque ''database is locked''), table_written table_cm)"
  by (simp_all add: table_commit_def table_written_def table0_def table_cm_def)

lemmas table_run = table_pool_sel table_db_sel table_begin_Background rows_tables insert_row_open
  table_rollback_written table_commit_written insert_ok_def insert_fail_def insert_panic_def

lemma table_rb_failed_run:
  "WithTransaction Background table_pool (insert_fail e) table_rb
     = (Return (Some (Errorf_rollback ErrTxDone e)), table_written table_rb)"
  "SQLiteTransaction Background table_db (insert_fail e) table_rb
     = (Return (Some (Errorf_rollback ErrTxDone e)), table_written table_rb)"
  by (simp_all add: WithTransaction_rollback_failed [where tx = 1 and ?s0.0 = "table_open table_rb"
          and ?s1.0 = "table_written table_rb"]
        SQLiteTransaction_rollback_failed [where tx = 1 and ?s0.0 = "table_open table_rb"
          and ?s1.0 = "table_written table_rb"] table_run)

section \<open>The exits and calls of the two populators\<close>

lemma Remember_hit:
  assumes "cache_Get c ctx key s = (Inr val, s0)"
  shows "Remember c codec ctx key ttl fn s = (Inr val, s0)"
  using assms by (simp add: Remember_def)

lemma Remember_compute_failed:
  assumes "cache_Get c ctx key s = (Inl gerr, s0)" and "IsNil gerr" and "fn s0 = (Inl ferr, s1)"
  shows "Remember c codec ctx key ttl fn s = (Inl ferr, s1)"
  using assms by (simp add: Remember_def)

lemma Remember_marshal_failed:
  assumes "cache_Get c ctx key s = (Inl gerr, s0)" and "IsNil gerr" and "fn s0 = (Inr (Other v), s1)"
    and "Marshal codec (Other v) = Inl merr"
  shows "Remember c codec ctx key ttl fn s = (Inl merr, s1)"
  using assms by (simp add: Remember_def)

lemma RememberJSON_hit:
  assumes "cache_Get c ctx key s = (Inr val, s0)"
  shows "RememberJSON c codec ctx key ttl dest fn s = (Unmarshal codec val dest, s0)"
  using assms by (simp add: RememberJSON_def)

lemma RememberJSON_compute_failed:
  assumes "cache_Get c ctx key s = (Inl gerr, s0)" and "IsNil gerr" and "fn s0 = (Inl ferr, s1)"
  shows "RememberJSON c codec ctx key ttl dest fn s = ((Some ferr, dest), s1)"
  using assms by (simp add: RememberJSON_def)

lemma RememberJSON_marshal_failed:
  assumes "cache_Get c ctx key s = (Inl gerr, s0)" and "IsNil gerr" and "fn s0 = (Inr result, s1)"
    and "Marshal codec result = Inl merr"
  shows "RememberJSON c codec ctx key ttl dest fn s = ((Some merr, dest), s1)"
  using assms by (simp add: RememberJSON_def)

lemma Remember_calls_cases:
  "Remember_calls c codec ctx key ttl fn s =
     (case fst (cache_Get c ctx key s) of
        Inr val \<Rightarrow> [EvGet]
      | Inl gerr \<Rightarrow>
          if \<not> IsNil gerr then [EvGet]
          else
            (case fst (fn (snd (cache_Get c ctx key s))) of
               Inl ferr \<Rightarrow> [EvGet, EvCompute]
             | Inr result \<Rightarrow>
                 (case (case result of String str \<Rightarrow> Inr str | Other v \<Rightarrow> Marshal codec result) of
                    Inl merr \<Rightarrow> [EvGet, EvCompute]
                  | Inr payload \<Rightarrow> [EvGet, EvCompute, EvSet])))"
  by (auto simp add: Remember_calls_def Remember_def recording_cache_def recording_def
      split: prod.splits sum.splits option.splits go_value.splits)

lemma RememberJSON_calls_cases:
  "RememberJSON_calls c codec ctx key ttl dest fn s =
     (case fst (cache_Get c ctx key s) of
        Inr val \<Rightarrow> [EvGet]
      | Inl gerr \<Rightarrow>
          if \<not> IsNil gerr then [EvGet]
          else
            (case fst (fn (snd (cache_Get c ctx key s))) of
               Inl ferr \<Rightarrow> [EvGet, EvCompute]
             | Inr result \<Rightarrow>
                 (case Marshal codec result of
                    Inl merr \<Rightarrow> [EvGet, EvCompute]
                  | Inr payload \<Rightarrow> [EvGet, EvCompute, EvSet])))"
  by (auto simp add: RememberJSON_calls_def RememberJSON_def recording_cache_def recording_def
      split: prod.splits sum.splits option.splits)

text \<open>Here too a recorded run is the plain run beside its log.\<close>

lemma recorded_Remember:
  "Remember (recording_cache c) codec ctx key ttl (recording EvCompute fn) (s, log) =
     (fst (Remember c codec ctx key ttl fn s),
      (snd (Remember c codec ctx key ttl fn s), log @ Remember_calls c codec ctx key ttl fn s))"
  by (auto simp add: Remember_calls_def Remember_def recording_cache_def recording_def
      split: prod.splits sum.splits option.splits go_value.splits)

lemma recorded_RememberJSON:
  "RememberJSON (recording_cache c) codec ctx key ttl dest (recording EvCompute fn) (s, log) =
     (fst (RememberJSON c codec ctx key ttl dest fn s),
      (snd (RememberJSON c codec ctx key ttl dest fn s),
       log @ RememberJSON_calls c codec ctx key ttl dest fn s))"
  by (auto simp add: RememberJSON_calls_def RememberJSON_def recording_cache_def recording_def
      split: prod.splits sum.splits option.splits)

section \<open>Runs of the small cache\<close>

lemma kv_cache_sel: "cache_Get kv_cache = kv_get" "cache_Set kv_cache = kv_set"
  by (simp_all add: kv_cache_def)

lemma flag_codec_sel: "Marshal flag_codec = flag_Marshal" "Unmarshal flag_codec = flag_Unmarshal"
  by (simp_all add: flag_codec_def)

lemma IsNil_redis_Nil: "IsNil redis_Nil"
  by (simp add: IsNil_def)

lemma not_IsNil_context_Canceled: "\<not> IsNil context_Canceled"
  by (simp add: IsNil_def redis_Nil_def context_Canceled_def)

lemmas kv_run = kv_cache_sel flag_codec_sel kv_get_def kv_set_def compute_value_def compute_fail_def
  flag_Marshal_def flag_Unmarshal_def IsNil_redis_Nil not_IsNil_context_Canceled

section \<open>The transaction coordinators\<close>

text \<open>
  C1. When the callback panics, \<^verbatim>\<open>WithTransaction\<close> and \<^verbatim>\<open>SQLiteTransaction\<close> catch the
  panic, attempt one rollback and panic again with the same value: the outcome is
  \<open>Panic p\<close> whatever the rollback answers (its result is dropped), never a \<open>Return\<close>,
  and the calls made are begin, the callback, rollback.
\<close>

theorem panic_is_rolled_back_and_reraised:
  "(pool_Begin pool ctx s = (Inr tx, s0) \<and> fn tx s0 = (Panic p, s1) \<longrightarrow>
      WithTransaction ctx pool fn s = (Panic p, snd (tx_Rollback pool tx ctx s1))
    \<and> pool_calls ctx pool fn s = [EvBegin, EvCallback, EvRollback])
 \<and> (db_BeginTx db ctx' t = (Inr tx', t0) \<and> fn' tx' t0 = (Panic p', t1) \<longrightarrow>
      SQLiteTransaction ctx' db fn' t = (Panic p', snd (sqltx_Rollback db tx' t1))
    \<and> db_calls ctx' db fn' t = [EvBegin, EvCallback, EvRollback])"
  by (simp add: WithTransaction_panicked SQLiteTransaction_panicked pool_calls_cases db_calls_cases)

text \<open>A panicking insert: on the pool with a rollback that fails, on the database with one that succeeds.\<close>

theorem panic_is_rolled_back_and_reraised_witness:
  "pool_Begin table_pool Background table_rb = (Inr 1, table_open table_rb)
 \<and> insert_panic 1 (table_open table_rb) = (Panic ''boom'', table_written table_rb)
 \<and> fst (tx_Rollback table_pool 1 Background (table_written table_rb)) = Some ErrTxDone
 \<and> fst (WithTransaction Background table_pool insert_panic table_rb) = Panic ''boom''
 \<and> pool_calls Background table_pool insert_panic table_rb = [EvBegin, EvCallback, EvRollback]
 \<and> db_BeginTx table_db Background table0 = (Inr 1, table_open table0)
 \<and> insert_panic 1 (table_open table0) = (Panic ''boom'', table_written table0)
 \<and> SQLiteTransaction Background table_db insert_panic table0 = (Panic ''boom'', table0)
 \<and> db_calls Background table_db insert_panic table0 = [EvBegin, EvCallback, EvRollback]"
proof -
  have b: "pool_Begin table_pool Background table_rb = (Inr 1, table_open table_rb)"
    and f: "insert_panic 1 (table_open table_rb) = (Panic ''boom'', table_written table_rb)"
    and b': "db_BeginTx table_db Background table0 = (Inr 1, table_open table0)"
    and f': "insert_panic 1 (table_open table0) = (Panic ''boom'', table_written table0)"
    by (simp_all add: table_run)
  from panic_is_rolled_back_and_reraised
         [of table_pool Background table_rb 1 "table_open table_rb" insert_panic "''boom''"
             "table_written table_rb" table_db Background table0 1 "table_open table0" insert_panic
             "''boom''" "table_written table0"]
       b f b' f'
  show ?thesis by (simp add: table_run)
qed

text \<open>
  C2. Once begin has succeeded, whatever the callback does (returns nil, returns an
  error, panics), the coordinator makes exactly one callback call and then exactly one
  call that resolves the handle, a commit or a rollback, never both and never a second
  attempt, before it returns or panics again.
\<close>

theorem transaction_resolved_exactly_once:
  "(pool_Begin pool ctx s = (Inr tx, s0) \<longrightarrow>
      pool_calls ctx pool fn s \<in> {[EvBegin, EvCallback, EvCommit], [EvBegin, EvCallback, EvRollback]}
    \<and> count_list (pool_calls ctx pool fn s) EvCommit \<le> 1
    \<and> count_list (pool_calls ctx pool fn s) EvRollback \<le> 1
    \<and> count_list (pool_calls ctx pool fn s) EvCommit + count_list (pool_calls ctx pool fn s) EvRollback = 1
    \<and> count_list (pool_calls ctx pool fn s) EvCallback = 1)
 \<and> (db_BeginTx db ctx' t = (Inr tx', t0) \<longrightarrow>
      db_calls ctx' db fn' t \<in> {[EvBegin, EvCallback, EvCommit], [EvBegin, EvCallback, EvRollback]}
    \<and> count_list (db_calls ctx' db fn' t) EvCommit \<le> 1
    \<and> count_list (db_calls ctx' db fn' t) EvRollback \<le> 1
    \<and> count_list (db_calls ctx' db fn' t) EvCommit + count_list (db_calls ctx' db fn' t) EvRollback = 1
    \<and> count_list (db_calls ctx' db fn' t) EvCallback = 1)"
  by (simp add: pool_calls_cases db_calls_cases split: outcome.splits option.splits)

text \<open>A committed run of the pool and a panicking run of the database.\<close>

theorem transaction_resolved_exactly_once_witness:
  "pool_Begin table_pool Background table0 = (Inr 1, table_open table0)
 \<and> pool_calls Background table_pool insert_ok table0 = [EvBegin, EvCallback, EvCommit]
 \<and> count_list (pool_calls Background table_pool insert_ok table0) EvCommit
      + count_list (pool_calls Background table_pool insert_ok table0) EvRollback = 1
 \<and> db_BeginTx table_db Background table_rb = (Inr 1, table_open table_rb)
 \<and> db_calls Background table_db insert_panic table_rb = [EvBegin, EvCallback, EvRollback]
 \<and> count_list (db_calls Background table_db insert_panic table_rb) EvCommit
      + count_list (db_calls Background table_db insert_panic table_rb) EvRollback = 1"
proof -
  have b: "pool_Begin table_pool Background table0 = (Inr 1, table_open table0)"
    and b': "db_BeginTx table_db Background table_rb = (Inr 1, table_open table_rb)"
    by (simp_all add: table_run)
  from transaction_resolved_exactly_once
         [of table_pool Background table0 1 "table_open table0" insert_ok
             table_db Background table_rb 1 "table_open table_rb" insert_panic]
       b b'
  show ?thesis by (simp add: pool_calls_cases db_calls_cases table_run)
qed

text \<open>
  C3. When the callback returns nil the coordinator commits (and does not roll back).
  It returns nil when the commit answers nil; when the commit answers an error it
  returns a non-nil error that wraps that error under the text
  \<^verbatim>\<open>failed to commit transaction: \<close>.
\<close>

theorem success_commits:
  "(pool_Begin pool ctx s = (Inr tx, s0) \<and> fn tx s0 = (Return None, s1) \<longrightarrow>
      pool_calls ctx pool fn s = [EvBegin, EvCallback, EvCommit]
    \<and> WithTransaction ctx pool fn s =
        (Return (map_option (Errorf_w ''failed to commit transaction: '') (fst (tx_Commit pool tx ctx s1))),
         snd (tx_Commit pool tx ctx s1))
    \<and> (fst (tx_Commit pool tx ctx s1) = None \<longrightarrow> fst (WithTransaction ctx pool fn s) = Return None)
    \<and> (\<forall>cerr. fst (tx_Commit pool tx ctx s1) = Some cerr \<longrightarrow>
          (\<exists>e. fst (WithTransaction ctx pool fn s) = Return (Some e) \<and> Unwrap e = Some cerr
               \<and> errors_Is e cerr \<and> Error e = ''failed to commit transaction: '' @ Error cerr)))
 \<and> (db_BeginTx db ctx' t = (Inr tx', t0) \<and> fn' tx' t0 = (Return None, t1) \<longrightarrow>
      db_calls ctx' db fn' t = [EvBegin, EvCallback, EvCommit]
    \<and> SQLiteTransaction ctx' db fn' t =
        (Return (map_option (Errorf_w ''failed to commit transaction: '') (fst (sqltx_Commit db tx' t1))),
         snd (sqltx_Commit db tx' t1))
    \<and> (fst (sqltx_Commit db tx' t1) = None \<longrightarrow> fst (SQLiteTransaction ctx' db fn' t) = Return None)
    \<and> (\<forall>cerr. fst (sqltx_Commit db tx' t1) = Some cerr \<longrightarrow>
          (\<exists>e. fst (SQLiteTransaction ctx' db fn' t) = Return (Some e) \<and> Unwrap e = Some cerr
               \<and> errors_Is e cerr \<and> Error e = ''failed to commit transaction: '' @ Error cerr)))"
  by (simp add: WithTransaction_succeeded SQLiteTransaction_succeeded pool_calls_cases db_calls_cases
      Unwrap_Errorf_w errors_Is_Errorf_w Error_Errorf_w)

text \<open>A commit that succeeds on the pool and one that fails on the database.\<close>

theorem success_commits_witness:
  "pool_Begin table_pool Background table0 = (Inr 1, table_open table0)
 \<and> insert_ok 1 (table_open table0) = (Return None, table_written table0)
 \<and> fst (tx_Commit table_pool 1 Background (table_written table0)) = None
 \<and> WithTransaction Background table_pool insert_ok table0
      = (Return None, table0\<lparr>rows := [''alice'', ''bob'']\<rparr>)
 \<and> pool_calls Background table_pool insert_ok table0 = [EvBegin, EvCallback, EvCommit]
 \<and> db_BeginTx table_db Background table_cm = (Inr 1, table_open table_cm)
 \<and> insert_ok 1 (table_open table_cm) = (Return None, table_written table_cm)
 \<and> fst (sqltx_Commit table_db 1 (table_written table_cm)) = Some (Opaque ''database is locked'')
 \<and> fst (SQLiteTransaction Background table_db insert_ok table_cm)
      = Return (Some (WrapError ''failed to commit transaction: database is locked''
                        (Opaque ''database is locked'')))
 \<and> db_calls Background table_db insert_ok table_cm = [EvBegin, EvCallback, EvCommit]"
proof -
  have b: "pool_Begin table_pool Background table0 = (Inr 1, table_open table0)"
    and f: "insert_ok 1 (table_open table0) = (Return None, table_written table0)"
    and b': "db_BeginTx table_db Background table_cm = (Inr 1, table_open table_cm)"
    and f': "insert_ok 1 (table_open table_cm) = (Return None, table_written table_cm)"
    by (simp_all add: table_run)
  from success_commits
         [of table_pool Background table0 1 "table_open table0" insert_ok "table_written table0"
             table_db Background table_cm 1 "table_open table_cm" insert_ok "table_written table_cm"]
       b f b' f'
  show ?thesis by (simp add: table_run Errorf_w_def)
qed

text \<open>
  C4. When the callback returns a non-nil error the coordinator attempts rollback
  exactly once and never commits; when the rollback answers nil, the coordinator returns
  the callback's error itself, not a wrapper around it.
\<close>

theorem error_rolls_back:
  "(pool_Begin pool ctx s = (Inr tx, s0) \<and> fn tx s0 = (Return (Some err), s1) \<longrightarrow>
      pool_calls ctx pool fn s = [EvBegin, EvCallback, EvRollback]
    \<and> count_list (pool_calls ctx pool fn s) EvRollback = 1
    \<and> count_list (pool_calls ctx pool fn s) EvCommit = 0
    \<and> snd (WithTransaction ctx pool fn s) = snd (tx_Rollback pool tx ctx s1)
    \<and> (fst (tx_Rollback pool tx ctx s1) = None \<longrightarrow>
          fst (WithTransaction ctx pool fn s) = Return (Some err)))
 \<and> (db_BeginTx db ctx' t = (Inr tx', t0) \<and> fn' tx' t0 = (Return (Some err'), t1) \<longrightarrow>
      db_calls ctx' db fn' t = [EvBegin, EvCallback, EvRollback]
    \<and> count_list (db_calls ctx' db fn' t) EvRollback = 1
    \<and> count_list (db_calls ctx' db fn' t) EvCommit = 0
    \<and> snd (SQLiteTransaction ctx' db fn' t) = snd (sqltx_Rollback db tx' t1)
    \<and> (fst (sqltx_Rollback db tx' t1) = None \<longrightarrow>
          fst (SQLiteTransaction ctx' db fn' t) = Return (Some err')))"
  by (simp add: WithTransaction_failed SQLiteTransaction_failed pool_calls_cases db_calls_cases)

text \<open>A failing insert, rolled back on both stores.\<close>

theorem error_rolls_back_witness:
  "pool_Begin table_pool Background table0 = (Inr 1, table_open table0)
 \<and> insert_fail insert_failed 1 (table_open table0) = (Return (Some insert_failed), table_written table0)
 \<and> fst (tx_Rollback table_pool 1 Background (table_written table0)) = None
 \<and> WithTransaction Background table_pool (insert_fail insert_failed) table0
      = (Return (Some insert_failed), table0)
 \<and> pool_calls Background table_pool (insert_fail insert_failed) table0 = [EvBegin, EvCallback, EvRollback]
 \<and> db_BeginTx table_db Background table0 = (Inr 1, table_open table0)
 \<and> fst (sqltx_Rollback table_db 1 (table_written table0)) = None
 \<and> SQLiteTransaction Background table_db (insert_fail insert_failed) table0
      = (Return (Some insert_failed), table0)
 \<and> db_calls Background table_db (insert_fail insert_failed) table0 = [EvBegin, EvCallback, EvRollback]"
proof -
  have b: "pool_Begin table_pool Background table0 = (Inr 1, table_open table0)"
    and f: "insert_fail insert_failed 1 (table_open table0) = (Return (Some insert_failed), table_written table0)"
    and r: "tx_Rollback table_pool 1 Background (table_written table0) = (None, table0)"
    and b': "db_BeginTx table_db Background table0 = (Inr 1, table_open table0)"
    and r': "sqltx_Rollback table_db 1 (table_written table0) = (None, table0)"
    by (simp_all add: table_run)
  from error_rolls_back
         [of table_pool Background table0 1 "table_open table0" "insert_fail insert_failed" insert_failed
             "table_written table0"
             table_db Background table0 1 "table_open table0" "insert_fail insert_failed" insert_failed
             "table_written table0"]
       b f r b' r'
  show ?thesis by (simp add: prod_eq_iff)
qed

text \<open>
  C5. When begin fails the coordinator returns at once a non-nil error (the begin error
  wrapped under \<^verbatim>\<open>failed to begin transaction: \<close>): begin is the only call made, the
  callback is not invoked and there is neither commit nor rollback.
\<close>

theorem begin_failure_returns_at_once:
  "(pool_Begin pool ctx s = (Inl berr, s0) \<longrightarrow>
      WithTransaction ctx pool fn s = (Return (Some (Errorf_w ''failed to begin transaction: '' berr)), s0)
    \<and> pool_calls ctx pool fn s = [EvBegin])
 \<and> (db_BeginTx db ctx' t = (Inl berr', t0) \<longrightarrow>
      SQLiteTransaction ctx' db fn' t = (Return (Some (Errorf_w ''failed to begin transaction: '' berr')), t0)
    \<and> db_calls ctx' db fn' t = [EvBegin])"
  by (simp add: WithTransaction_begin_failed SQLiteTransaction_begin_failed pool_calls_cases db_calls_cases)

text \<open>Begin on a cancelled context.\<close>

theorem begin_failure_returns_at_once_witness:
  "pool_Begin table_pool Cancelled table0 = (Inl context_Canceled, table0)
 \<and> WithTransaction Cancelled table_pool insert_ok table0
      = (Return (Some (WrapError ''failed to begin transaction: context canceled'' context_Canceled)), table0)
 \<and> pool_calls Cancelled table_pool insert_ok table0 = [EvBegin]
 \<and> db_BeginTx table_db Cancelled table0 = (Inl context_Canceled, table0)
 \<and> SQLiteTransaction Cancelled table_db insert_panic table0
      = (Return (Some (WrapError ''failed to begin transaction: context canceled'' context_Canceled)), table0)
 \<and> db_calls Cancelled table_db insert_panic table0 = [EvBegin]"
proof -
  have b: "pool_Begin table_pool Cancelled table0 = (Inl context_Canceled, table0)"
    and b': "db_BeginTx table_db Cancelled table0 = (Inl context_Canceled, table0)"
    by (simp_all add: table_run table_begin_def)
  from begin_failure_returns_at_once
         [of table_pool Cancelled table0 context_Canceled table0 insert_ok
             table_db Cancelled table0 context_Canceled table0 insert_panic]
       b b'
  show ?thesis by (simp add: Errorf_w_def context_Canceled_def)
qed

text \<open>
  C6, the claim as stated fails: it says that the two variants report a failed rollback
  by two divergent policies, one wrapping and returning, the other logging and returning
  the original error. On the same run (a failing insert, then a failing rollback) both
  variants return the same compound error, and neither returns the original error.
\<close>

theorem divergent_rollback_policies_counterexample:
  "fst (WithTransaction Background table_pool (insert_fail insert_failed) table_rb)
     = Return (Some (Errorf_rollback ErrTxDone insert_failed))
 \<and> fst (SQLiteTransaction Background table_db (insert_fail insert_failed) table_rb)
     = Return (Some (Errorf_rollback ErrTxDone insert_failed))
 \<and> fst (WithTransaction Background table_pool (insert_fail insert_failed) table_rb)
     \<noteq> Return (Some insert_failed)
 \<and> fst (SQLiteTransaction Background table_db (insert_fail insert_failed) table_rb)
     \<noteq> Return (Some insert_failed)"
  by (simp add: table_rb_failed_run Errorf_rollback_def insert_failed_def)

text \<open>
  C6, amended. The two variants have the same observable behaviour for every callback
  outcome: \<^verbatim>\<open>SQLiteTransaction\<close> on a database is \<^verbatim>\<open>WithTransaction\<close> on that database seen
  as a pool, \<^verbatim>\<open>WithTransaction\<close> on a pool is \<^verbatim>\<open>SQLiteTransaction\<close> on that pool under the
  call's context, results, states and calls alike. In particular both apply one and the
  same policy to a failed rollback, wrap and return: each returns an error that unwraps
  to the callback's error, whose text is \<^verbatim>\<open>rollback failed: \<close>, the rollback error's text,
  \<^verbatim>\<open> (original error: \<close>, the callback error's text and \<^verbatim>\<open>)\<close>, and that is not the
  callback's error itself.
\<close>

theorem coordinators_agree:
  "SQLiteTransaction ctx db fn s = WithTransaction ctx (pool_of_db db) fn s
 \<and> db_calls ctx db fn s = pool_calls ctx (pool_of_db db) fn s
 \<and> WithTransaction ctx' pool fn' t = SQLiteTransaction ctx' (db_of_pool ctx' pool) fn' t
 \<and> pool_calls ctx' pool fn' t = db_calls ctx' (db_of_pool ctx' pool) fn' t
 \<and> (db_BeginTx db ctx s = (Inr tx, s0) \<and> fn tx s0 = (Return (Some err), s1)
      \<and> sqltx_Rollback db tx s1 = (Some rbErr, s2) \<longrightarrow>
        SQLiteTransaction ctx db fn s = (Return (Some (Errorf_rollback rbErr err)), s2)
      \<and> WithTransaction ctx (pool_of_db db) fn s = (Return (Some (Errorf_rollback rbErr err)), s2))
 \<and> (pool_Begin pool ctx' t = (Inr tx', t0) \<and> fn' tx' t0 = (Return (Some err'), t1)
      \<and> tx_Rollback pool tx' ctx' t1 = (Some rbErr', t2) \<longrightarrow>
        WithTransaction ctx' pool fn' t = (Return (Some (Errorf_rollback rbErr' err')), t2)
      \<and> SQLiteTransaction ctx' (db_of_pool ctx' pool) fn' t = (Return (Some (Errorf_rollback rbErr' err')), t2))
 \<and> (db_BeginTx db ctx s = (Inr tx, s0) \<and> fn tx s0 = (Return (Some err), s1)
      \<and> sqltx_Rollback db tx s1 = (Some rbErr, s2) \<longrightarrow>
        (\<exists>e. fst (SQLiteTransaction ctx db fn s) = Return (Some e)
            \<and> fst (WithTransaction ctx (pool_of_db db) fn s) = Return (Some e)
            \<and> Unwrap e = Some err
            \<and> Error e = ''rollback failed: '' @ Error rbErr @ '' (original error: '' @ Error err @ '')''
            \<and> e \<noteq> err))
 \<and> (pool_Begin pool ctx' t = (Inr tx', t0) \<and> fn' tx' t0 = (Return (Some err'), t1)
      \<and> tx_Rollback pool tx' ctx' t1 = (Some rbErr', t2) \<longrightarrow>
        (\<exists>e. fst (WithTransaction ctx' pool fn' t) = Return (Some e)
            \<and> fst (SQLiteTransaction ctx' (db_of_pool ctx' pool) fn' t) = Return (Some e)
            \<and> Unwrap e = Some err'
            \<and> Error e = ''rollback failed: '' @ Error rbErr' @ '' (original error: '' @ Error err' @ '')''
            \<and> e \<noteq> err'))"
proof -
  have eq1: "SQLiteTransaction ctx db fn s = WithTransaction ctx (pool_of_db db) fn s"
    by (rule SQLiteTransaction_as_WithTransaction)
  have eq2: "WithTransaction ctx' pool fn' t = SQLiteTransaction ctx' (db_of_pool ctx' pool) fn' t"
    by (rule WithTransaction_as_SQLiteTransaction)
  have pol1: "db_BeginTx db ctx s = (Inr tx, s0) \<and> fn tx s0 = (Return (Some err), s1)
      \<and> sqltx_Rollback db tx s1 = (Some rbErr, s2) \<longrightarrow>
        SQLiteTransaction ctx db fn s = (Return (Some (Errorf_rollback rbErr err)), s2)"
    by (simp add: SQLiteTransaction_rollback_failed)
  have pol2: "pool_Begin pool ctx' t = (Inr tx', t0) \<and> fn' tx' t0 = (Return (Some err'), t1)
      \<and> tx_Rollback pool tx' ctx' t1 = (Some rbErr', t2) \<longrightarrow>
        WithTransaction ctx' pool fn' t = (Return (Some (Errorf_rollback rbErr' err')), t2)"
    by (simp add: WithTransaction_rollback_failed)
  from pol1 have pol1': "db_BeginTx db ctx s = (Inr tx, s0) \<and> fn tx s0 = (Return (Some err), s1)
      \<and> sqltx_Rollback db tx s1 = (Some rbErr, s2) \<longrightarrow>
        WithTransaction ctx (pool_of_db db) fn s = (Return (Some (Errorf_rollback rbErr err)), s2)"
    by (simp only: eq1)
  from pol2 have pol2': "pool_Begin pool ctx' t = (Inr tx', t0) \<and> fn' tx' t0 = (Return (Some err'), t1)
      \<and> tx_Rollback pool tx' ctx' t1 = (Some rbErr', t2) \<longrightarrow>
        SQLiteTransaction ctx' (db_of_pool ctx' pool) fn' t = (Return (Some (Errorf_rollback rbErr' err')), t2)"
    by (simp only: eq2)
  have wrap1: "db_BeginTx db ctx s = (Inr tx, s0) \<and> fn tx s0 = (Return (Some err), s1)
      \<and> sqltx_Rollback db tx s1 = (Some rbErr, s2) \<longrightarrow>
        (\<exists>e. fst (SQLiteTransaction ctx db fn s) = Return (Some e)
            \<and> fst (WithTransaction ctx (pool_of_db db) fn s) = Return (Some e)
            \<and> Unwrap e = Some err
            \<and> Error e = ''rollback failed: '' @ Error rbErr @ '' (original error: '' @ Error err @ '')''
            \<and> e \<noteq> err)"
    using SQLiteTransaction_wraps_and_returns [of db ctx s tx s0 fn err s1 rbErr s2]
    by (simp only: eq1 [symmetric]) blast
  have wrap2: "pool_Begin pool ctx' t = (Inr tx', t0) \<and> fn' tx' t0 = (Return (Some err'), t1)
      \<and> tx_Rollback pool tx' ctx' t1 = (Some rbErr', t2) \<longrightarrow>
        (\<exists>e. fst (WithTransaction ctx' pool fn' t) = Return (Some e)
            \<and> fst (SQLiteTransaction ctx' (db_of_pool ctx' pool) fn' t) = Return (Some e)
            \<and> Unwrap e = Some err'
            \<and> Error e = ''rollback failed: '' @ Error rbErr' @ '' (original error: '' @ Error err' @ '')''
            \<and> e \<noteq> err')"
    using WithTransaction_wraps_and_returns [of pool ctx' t tx' t0 fn' err' t1 rbErr' t2]
    by (simp only: eq2 [symmetric]) blast
  have calls1: "db_calls ctx db fn s = pool_calls ctx (pool_of_db db) fn s"
    by (simp add: pool_calls_pool_of_db)
  have calls2: "pool_calls ctx' pool fn' t = db_calls ctx' (db_of_pool ctx' pool) fn' t"
    by (simp add: db_calls_db_of_pool)
  from eq1 calls1 eq2 calls2 pol1 pol1' pol2 pol2' wrap1 wrap2
  show ?thesis by blast
qed

text \<open>The failing insert with a failing rollback, on both stores.\<close>

theorem coordinators_agree_witness:
  "db_BeginTx table_db Background table_rb = (Inr 1, table_open table_rb)
 \<and> insert_fail insert_failed 1 (table_open table_rb) = (Return (Some insert_failed), table_written table_rb)
 \<and> sqltx_Rollback table_db 1 (table_written table_rb) = (Some ErrTxDone, table_written table_rb)
 \<and> pool_Begin table_pool Background table_rb = (Inr 1, table_open table_rb)
 \<and> tx_Rollback table_pool 1 Background (table_written table_rb) = (Some ErrTxDone, table_written table_rb)
 \<and> SQLiteTransaction Background table_db (insert_fail insert_failed) table_rb
      = (Return (Some (Errorf_rollback ErrTxDone insert_failed)), table_written table_rb)
 \<and> WithTransaction Background table_pool (insert_fail insert_failed) table_rb
      = (Return (Some (Errorf_rollback ErrTxDone insert_failed)), table_written table_rb)
 \<and> SQLiteTransaction Background table_db (insert_fail insert_failed) table_rb
      = WithTransaction Background (pool_of_db table_db) (insert_fail insert_failed) table_rb
 \<and> (\<exists>e. fst (SQLiteTransaction Background table_db (insert_fail insert_failed) table_rb) = Return (Some e)
      \<and> fst (WithTransaction Background table_pool (insert_fail insert_failed) table_rb) = Return (Some e)
      \<and> Unwrap e = Some insert_failed
      \<and> Error e = ''rollback failed: sql: transaction has already been committed or rolled back (original error: UNIQUE constraint failed: users.name)''
      \<and> e \<noteq> insert_failed)"
proof -
  have b: "db_BeginTx table_db Background table_rb = (Inr 1, table_open table_rb)"
    and f: "insert_fail insert_failed 1 (table_open table_rb) = (Return (Some insert_failed), table_written table_rb)"
    and r: "sqltx_Rollback table_db 1 (table_written table_rb) = (Some ErrTxDone, table_written table_rb)"
    and b': "pool_Begin table_pool Background table_rb = (Inr 1, table_open table_rb)"
    and r': "tx_Rollback table_pool 1 Background (table_written table_rb) = (Some ErrTxDone, table_written table_rb)"
    by (simp_all add: table_run)
  have e: "Error ErrTxDone = ''sql: transaction has already been committed or rolled back''"
    "Error insert_failed = ''UNIQUE constraint failed: users.name''"
    by (simp_all add: insert_failed_def ErrTxDone_def)
  from coordinators_agree
         [of Background table_db "insert_fail insert_failed" table_rb Background table_pool
             "insert_fail insert_failed" table_rb 1 "table_open table_rb" insert_failed
             "table_written table_rb" ErrTxDone "table_written table_rb"
             1 "table_open table_rb" insert_failed "table_written table_rb" ErrTxDone
             "table_written table_rb"]
       b f r b' r' e
  show ?thesis by auto
qed

text \<open>
  C10, the claim as stated fails: it says that the rollback error is not reachable by
  unwrapping the compound error. When the callback returns the very error that the
  rollback then answers (here \<^verbatim>\<open>sql.ErrTxDone\<close>, for a callback that ran on a finished
  transaction), the compound error unwraps to it.
\<close>

theorem rollback_error_unreachable_counterexample:
  "fst (tx_Rollback table_pool 1 Background (table_written table_rb)) = Some ErrTxDone
 \<and> fst (WithTransaction Background table_pool (insert_fail ErrTxDone) table_rb)
     = Return (Some (Errorf_rollback ErrTxDone ErrTxDone))
 \<and> fst (SQLiteTransaction Background table_db (insert_fail ErrTxDone) table_rb)
     = Return (Some (Errorf_rollback ErrTxDone ErrTxDone))
 \<and> Unwrap (Errorf_rollback ErrTxDone ErrTxDone) = Some ErrTxDone
 \<and> errors_Is (Errorf_rollback ErrTxDone ErrTxDone) ErrTxDone"
  by (simp add: table_rb_failed_run table_run errors_Is_Errorf_rollback errors_Is_refl
      Unwrap_Errorf_rollback)

text \<open>
  C10, amended. When the callback returns an error and the rollback fails too, both
  coordinators return a compound error that unwraps to the callback's error and whose
  text holds the text of both. The rollback error enters as text only: the chain of the
  compound error is the compound error followed by the chain of the callback's error,
  so the rollback error is reachable by unwrapping exactly when it already occurs in
  the chain of the callback's error.
\<close>

theorem compound_error_keeps_original_as_cause:
  "(pool_Begin pool ctx s = (Inr tx, s0) \<and> fn tx s0 = (Return (Some err), s1)
      \<and> tx_Rollback pool tx ctx s1 = (Some rbErr, s2) \<longrightarrow>
        WithTransaction ctx pool fn s = (Return (Some (Errorf_rollback rbErr err)), s2))
 \<and> (db_BeginTx db ctx' t = (Inr tx', t0) \<and> fn' tx' t0 = (Return (Some err), t1)
      \<and> sqltx_Rollback db tx' t1 = (Some rbErr, t2) \<longrightarrow>
        SQLiteTransaction ctx' db fn' t = (Return (Some (Errorf_rollback rbErr err)), t2))
 \<and> Unwrap (Errorf_rollback rbErr err) = Some err
 \<and> errors_Is (Errorf_rollback rbErr err) err
 \<and> chain (Errorf_rollback rbErr err) = Errorf_rollback rbErr err # chain err
 \<and> Error (Errorf_rollback rbErr err)
      = ''rollback failed: '' @ Error rbErr @ '' (original error: '' @ Error err @ '')''
 \<and> (errors_Is (Errorf_rollback rbErr err) rbErr \<longleftrightarrow> errors_Is err rbErr)"
proof -
  have "Errorf_rollback rbErr err \<noteq> rbErr"
    by (rule Errorf_rollback_neq)
  then have "rbErr \<noteq> Errorf_rollback rbErr err"
    by (rule not_sym)
  then have "errors_Is (Errorf_rollback rbErr err) rbErr \<longleftrightarrow> errors_Is err rbErr"
    by (simp add: errors_Is_Errorf_rollback)
  moreover have "errors_Is (Errorf_rollback rbErr err) err"
    by (simp add: errors_Is_Errorf_rollback errors_Is_refl)
  ultimately show ?thesis
    by (simp add: WithTransaction_rollback_failed SQLiteTransaction_rollback_failed
        chain_Errorf_rollback Unwrap_Errorf_rollback Error_Errorf_rollback)
qed

text \<open>A failed insert and a rollback answering a different error.\<close>

theorem compound_error_keeps_original_as_cause_witness:
  "pool_Begin table_pool Background table_rb = (Inr 1, table_open table_rb)
 \<and> insert_fail insert_failed 1 (table_open table_rb) = (Return (Some insert_failed), table_written table_rb)
 \<and> tx_Rollback table_pool 1 Background (table_written table_rb) = (Some ErrTxDone, table_written table_rb)
 \<and> db_BeginTx table_db Background table_rb = (Inr 1, table_open table_rb)
 \<and> sqltx_Rollback table_db 1 (table_written table_rb) = (Some ErrTxDone, table_written table_rb)
 \<and> WithTransaction Background table_pool (insert_fail insert_failed) table_rb
      = (Return (Some (Errorf_rollback ErrTxDone insert_failed)), table_written table_rb)
 \<and> SQLiteTransaction Background table_db (insert_fail insert_failed) table_rb
      = (Return (Some (Errorf_rollback ErrTxDone insert_failed)), table_written table_rb)
 \<and> Unwrap (Errorf_rollback ErrTxDone insert_failed) = Some insert_failed
 \<and> errors_Is (Errorf_rollback ErrTxDone insert_failed) insert_failed
 \<and> \<not> errors_Is insert_failed ErrTxDone
 \<and> \<not> errors_Is (Errorf_rollback ErrTxDone insert_failed) ErrTxDone
 \<and> Error (Errorf_rollback ErrTxDone insert_failed)
      = ''rollback failed: sql: transaction has already been committed or rolled back (original error: UNIQUE constraint failed: users.name)''"
proof -
  have b: "pool_Begin table_pool Background table_rb = (Inr 1, table_open table_rb)"
    and f: "insert_fail insert_failed 1 (table_open table_rb) = (Return (Some insert_failed), table_written table_rb)"
    and r: "tx_Rollback table_pool 1 Background (table_written table_rb) = (Some ErrTxDone, table_written table_rb)"
    and b': "db_BeginTx table_db Background table_rb = (Inr 1, table_open table_rb)"
    and r': "sqltx_Rollback table_db 1 (table_written table_rb) = (Some ErrTxDone, table_written table_rb)"
    by (simp_all add: table_run)
  have n: "\<not> errors_Is insert_failed ErrTxDone"
    by (simp add: errors_Is_def insert_failed_def ErrTxDone_def)
  have e: "Error ErrTxDone = ''sql: transaction has already been committed or rolled back''"
    "Error insert_failed = ''UNIQUE constraint failed: users.name''"
    by (simp_all add: insert_failed_def ErrTxDone_def)
  from compound_error_keeps_original_as_cause
         [of table_pool Background table_rb 1 "table_open table_rb" "insert_fail insert_failed"
             insert_failed "table_written table_rb" ErrTxDone "table_written table_rb"
             table_db Background table_rb 1 "table_open table_rb" "insert_fail insert_failed"
             "table_written table_rb" "table_written table_rb"]
       b f r b' r' n e
  show ?thesis by simp
qed

section \<open>The cache populators: claims\<close>

text \<open>
  C7. On a miss, when the callback succeeds and its result fails to serialize,
  \<^verbatim>\<open>Remember\<close> and \<^verbatim>\<open>RememberJSON\<close> return that serialization error, a non-nil error,
  and make no write: the calls are the read and the callback, the state is the one the
  callback left, and the destination of \<^verbatim>\<open>RememberJSON\<close> is untouched. (\<^verbatim>\<open>Remember\<close>
  serializes only a result that is not a string.)
\<close>

theorem serialization_failure_aborts_before_write:
  "(cache_Get c ctx key s = (Inl gerr, s0) \<and> IsNil gerr \<and> fn s0 = (Inr (Other v), s1)
      \<and> Marshal codec (Other v) = Inl merr \<longrightarrow>
        Remember c codec ctx key ttl fn s = (Inl merr, s1)
      \<and> Remember_calls c codec ctx key ttl fn s = [EvGet, EvCompute])
 \<and> (cache_Get c ctx key s = (Inl gerr, s0) \<and> IsNil gerr \<and> fn' s0 = (Inr result, s1)
      \<and> Marshal codec result = Inl merr \<longrightarrow>
        RememberJSON c codec ctx key ttl dest fn' s = ((Some merr, dest), s1)
      \<and> RememberJSON_calls c codec ctx key ttl dest fn' s = [EvGet, EvCompute])"
  by (simp add: Remember_marshal_failed RememberJSON_marshal_failed Remember_calls_cases
      RememberJSON_calls_cases)

text \<open>A callback returning a channel, which the codec refuses.\<close>

theorem serialization_failure_aborts_before_write_witness:
  "cache_Get kv_cache Background ''k1'' [] = (Inl redis_Nil, [])
 \<and> IsNil redis_Nil
 \<and> compute_value (Other Chan) [] = (Inr (Other Chan), [])
 \<and> Marshal flag_codec (Other Chan) = Inl (Opaque ''json: unsupported type: chan int'')
 \<and> Remember kv_cache flag_codec Background ''k1'' 3600 (compute_value (Other Chan)) []
      = (Inl (Opaque ''json: unsupported type: chan int''), [])
 \<and> Remember_calls kv_cache flag_codec Background ''k1'' 3600 (compute_value (Other Chan)) []
      = [EvGet, EvCompute]
 \<and> RememberJSON kv_cache flag_codec Background ''k1'' 3600 False (compute_value (Other Chan)) []
      = ((Some (Opaque ''json: unsupported type: chan int''), False), [])
 \<and> RememberJSON_calls kv_cache flag_codec Background ''k1'' 3600 False (compute_value (Other Chan)) []
      = [EvGet, EvCompute]"
proof -
  have g: "cache_Get kv_cache Background ''k1'' [] = (Inl redis_Nil, [])"
    and n: "IsNil redis_Nil"
    and f: "compute_value (Other Chan) [] = (Inr (Other Chan), [])"
    and m: "Marshal flag_codec (Other Chan) = Inl (Opaque ''json: unsupported type: chan int'')"
    by (simp_all add: kv_run)
  from serialization_failure_aborts_before_write
         [of kv_cache Background "''k1''" "[]" redis_Nil "[]" "compute_value (Other Chan)" Chan "[]"
             flag_codec "Opaque ''json: unsupported type: chan int''" 3600
             "compute_value (Other Chan)" "Other Chan" False]
       g n f m
  show ?thesis by simp
qed

text \<open>
  C8. On a miss, when the callback fails, \<^verbatim>\<open>Remember\<close> and \<^verbatim>\<open>RememberJSON\<close> return
  the callback's error and write nothing: no write is among the calls, the state is the
  one the callback left, and \<^verbatim>\<open>RememberJSON\<close> leaves the destination as it was.
\<close>

theorem compute_failure_writes_nothing:
  "cache_Get c ctx key s = (Inl gerr, s0) \<and> IsNil gerr \<and> fn s0 = (Inl ferr, s1) \<longrightarrow>
        Remember c codec ctx key ttl fn s = (Inl ferr, s1)
      \<and> Remember_calls c codec ctx key ttl fn s = [EvGet, EvCompute]
      \<and> EvSet \<notin> set (Remember_calls c codec ctx key ttl fn s)
      \<and> RememberJSON c codec ctx key ttl dest fn s = ((Some ferr, dest), s1)
      \<and> RememberJSON_calls c codec ctx key ttl dest fn s = [EvGet, EvCompute]
      \<and> EvSet \<notin> set (RememberJSON_calls c codec ctx key ttl dest fn s)"
  by (simp add: Remember_compute_failed RememberJSON_compute_failed Remember_calls_cases
      RememberJSON_calls_cases)

text \<open>A failing callback on a cache that holds another key: the cache is unchanged.\<close>

theorem compute_failure_writes_nothing_witness:
  "cache_Get kv_cache Background ''k1'' kv1 = (Inl redis_Nil, kv1)
 \<and> IsNil redis_Nil
 \<and> compute_fail compute_failed kv1 = (Inl compute_failed, kv1)
 \<and> Remember kv_cache flag_codec Background ''k1'' 3600 (compute_fail compute_failed) kv1
      = (Inl compute_failed, kv1)
 \<and> RememberJSON kv_cache flag_codec Background ''k1'' 3600 False (compute_fail compute_failed) kv1
      = ((Some compute_failed, False), kv1)
 \<and> Remember_calls kv_cache flag_codec Background ''k1'' 3600 (compute_fail compute_failed) kv1
      = [EvGet, EvCompute]
 \<and> RememberJSON_calls kv_cache flag_codec Background ''k1'' 3600 False (compute_fail compute_failed) kv1
      = [EvGet, EvCompute]"
proof -
  have g: "cache_Get kv_cache Background ''k1'' kv1 = (Inl redis_Nil, kv1)"
    and n: "IsNil redis_Nil"
    and f: "compute_fail compute_failed kv1 = (Inl compute_failed, kv1)"
    by (simp_all add: kv_run kv1_def)
  from compute_failure_writes_nothing
         [of kv_cache Background "''k1''" kv1 redis_Nil kv1 "compute_fail compute_failed" compute_failed
             kv1 flag_codec 3600 False]
       g n f
  show ?thesis by simp
qed

text \<open>
  C9. On a hit \<^verbatim>\<open>Remember\<close> returns the stored string as stored, \<^verbatim>\<open>RememberJSON\<close>
  decodes the stored string into the destination, and the read is the only call made:
  the callback is not invoked. In every run the callback is invoked at most once, and
  only when the read failed with the not-found signal.
\<close>

theorem hit_returns_stored_value_without_compute:
  "(cache_Get c ctx key s = (Inr val, s0) \<longrightarrow>
        Remember c codec ctx key ttl fn s = (Inr val, s0)
      \<and> Remember_calls c codec ctx key ttl fn s = [EvGet]
      \<and> RememberJSON c codec ctx key ttl dest fn s = (Unmarshal codec val dest, s0)
      \<and> RememberJSON_calls c codec ctx key ttl dest fn s = [EvGet])
 \<and> count_list (Remember_calls c codec ctx key ttl fn s) EvCompute \<le> 1
 \<and> count_list (RememberJSON_calls c codec ctx key ttl dest fn s) EvCompute \<le> 1
 \<and> (EvCompute \<in> set (Remember_calls c codec ctx key ttl fn s) \<longrightarrow>
       (\<exists>gerr. fst (cache_Get c ctx key s) = Inl gerr \<and> IsNil gerr))
 \<and> (EvCompute \<in> set (RememberJSON_calls c codec ctx key ttl dest fn s) \<longrightarrow>
       (\<exists>gerr. fst (cache_Get c ctx key s) = Inl gerr \<and> IsNil gerr))"
  by (simp add: Remember_hit RememberJSON_hit Remember_calls_cases RememberJSON_calls_cases
      split: sum.splits go_value.splits)

text \<open>A hit on \<^verbatim>\<open>k1\<close>, and a miss on the empty cache where the callback does run.\<close>

theorem hit_returns_stored_value_without_compute_witness:
  "cache_Get kv_cache Background ''k1'' kv2 = (Inr ''true'', kv2)
 \<and> Remember kv_cache flag_codec Background ''k1'' 3600 (compute_value (Other (Flag False))) kv2
      = (Inr ''true'', kv2)
 \<and> Remember_calls kv_cache flag_codec Background ''k1'' 3600 (compute_value (Other (Flag False))) kv2
      = [EvGet]
 \<and> RememberJSON kv_cache flag_codec Background ''k1'' 3600 False (compute_value (Other (Flag False))) kv2
      = ((None, True), kv2)
 \<and> RememberJSON_calls kv_cache flag_codec Background ''k1'' 3600 False (compute_value (Other (Flag False))) kv2
      = [EvGet]
 \<and> EvCompute \<in> set (Remember_calls kv_cache flag_codec Background ''k1'' 3600 (compute_value (Other (Flag False))) [])
 \<and> EvCompute \<in> set (RememberJSON_calls kv_cache flag_codec Background ''k1'' 3600 False (compute_value (Other (Flag False))) [])
 \<and> fst (cache_Get kv_cache Background ''k1'' []) = Inl redis_Nil"
proof -
  have g: "cache_Get kv_cache Background ''k1'' kv2 = (Inr ''true'', kv2)"
    by (simp add: kv_run kv2_def)
  have u: "Unmarshal flag_codec ''true'' False = (None, True)"
    by (simp add: kv_run)
  have m: "EvCompute \<in> set (Remember_calls kv_cache flag_codec Background ''k1'' 3600 (compute_value (Other (Flag False))) [])"
    "EvCompute \<in> set (RememberJSON_calls kv_cache flag_codec Background ''k1'' 3600 False (compute_value (Other (Flag False))) [])"
    "fst (cache_Get kv_cache Background ''k1'' []) = Inl redis_Nil"
    by (simp_all add: Remember_calls_cases RememberJSON_calls_cases kv_run)
  from hit_returns_stored_value_without_compute
         [of kv_cache Background "''k1''" kv2 "''true''" kv2 flag_codec 3600
             "compute_value (Other (Flag False))" False]
       hit_returns_stored_value_without_compute
         [of kv_cache Background "''k1''" "[]" "''true''" kv2 flag_codec 3600
             "compute_value (Other (Flag False))" False]
       g u m
  show ?thesis by simp
qed

end
